theory Spec2Isabelle
  imports Complex_Main "HOL-Library.Char_ord" "HOL-Library.List_Lexorder" "HOL-Library.AList"
begin

section \<open>Data values and vectors\<close>

text \<open>
  The cells of a data vector. Python compares and hashes \<open>True\<close>, \<open>1\<close> and \<open>1.0\<close> as the
  same value, so every number (bool, int, float) is represented by its value, a finite
  float by the rational number it denotes. \<open>VNaN\<close> is the float \<open>np.nan\<close>, \<open>VNone\<close> is
  \<open>None\<close>; both are null for \<open>pd.isna\<close>. \<open>VDate\<close> is a datetime (as an ordinal).
\<close>

datatype pyval = VNone | VNaN | VNum rat | VStr string | VDate int

text \<open>Exceptions, with the start of the message of the \<open>raise\<close> that produces them.\<close>

datatype error =
    ValueError string
  | TypeError string
  | KeyError string
  | AttributeError string
  | RuntimeError string

text \<open>
  The storage of a vector as the pandas dtype tests of the source see it: a categorical
  dtype with its categories, a numeric dtype (bool, int, float), a datetime64 dtype, or
  object storage (also a plain Python list).
\<close>

datatype dtype = DCategory "pyval list" | DNumeric | DDatetime | DObject

record series =
  sdtype :: dtype
  svals :: "pyval list"

text \<open>\<open>VariableType.allowed\<close>.\<close>

datatype var_type = Numeric | Datetime | Categorical

definition isna :: "pyval \<Rightarrow> bool" where
  "isna v = (v = VNone \<or> v = VNaN)"

definition notnull :: "pyval \<Rightarrow> bool" where
  "notnull v = (\<not> isna v)"

text \<open>Python truthiness, as \<open>any(...)\<close> tests it.\<close>

fun truthy :: "pyval \<Rightarrow> bool" where
  "truthy VNone = False"
| "truthy VNaN = True"
| "truthy (VNum q) = (q \<noteq> 0)"
| "truthy (VStr s) = (s \<noteq> [])"
| "truthy (VDate d) = True"

definition is_categorical_dtype :: "series \<Rightarrow> bool" where
  "is_categorical_dtype vector = (case sdtype vector of DCategory cats \<Rightarrow> True | _ \<Rightarrow> False)"

definition is_numeric_dtype :: "series \<Rightarrow> bool" where
  "is_numeric_dtype vector = (sdtype vector = DNumeric)"

definition is_datetime64_dtype :: "series \<Rightarrow> bool" where
  "is_datetime64_dtype vector = (sdtype vector = DDatetime)"

text \<open>
  One element of \<open>np.isin(vector, [0, 1, np.nan])\<close>. A number is a member when it equals
  0 or 1; \<open>None\<close>, strings and datetimes equal none of the three. A NaN cell is compared
  with the \<open>np.nan\<close> of the list by numpy's floating-point comparison, under which NaN
  equals nothing, so that numpy answers \<open>False\<close> for it. The answer is kept as the
  parameter \<open>nan_in\<close>: what is proved for every \<open>nan_in\<close> holds whatever numpy does
  there.
\<close>

fun isin_0_1_nan :: "bool \<Rightarrow> pyval \<Rightarrow> bool" where
  "isin_0_1_nan nan_in (VNum q) = (q = 0 \<or> q = 1)"
| "isin_0_1_nan nan_in VNaN = nan_in"
| "isin_0_1_nan nan_in v = False"

text \<open>\<open>isinstance(x_i, Number)\<close>: NaN is a float.\<close>

fun is_number :: "pyval \<Rightarrow> bool" where
  "is_number (VNum q) = True"
| "is_number VNaN = True"
| "is_number v = False"

fun is_datetime :: "pyval \<Rightarrow> bool" where
  "is_datetime (VDate d) = True"
| "is_datetime v = False"

fun is_str :: "pyval \<Rightarrow> bool" where
  "is_str (VStr s) = True"
| "is_str v = False"

definition all_numeric :: "pyval list \<Rightarrow> bool" where
  "all_numeric x = list_all is_number x"

definition all_datetime :: "pyval list \<Rightarrow> bool" where
  "all_datetime x = list_all is_datetime x"

section \<open>variable\_type\<close>

definition variable_type :: "bool \<Rightarrow> series \<Rightarrow> var_type \<Rightarrow> var_type" where
  "variable_type nan_in vector boolean_type =
    (if is_categorical_dtype vector then Categorical
     else if list_all isna (svals vector) then Numeric
     else if list_all (isin_0_1_nan nan_in) (svals vector) then boolean_type
     else if is_numeric_dtype vector then Numeric
     else if is_datetime64_dtype vector then Datetime
     else if all_numeric (svals vector) then Numeric
     else if all_datetime (svals vector) then Datetime
     else Categorical)"

section \<open>categorical\_order\<close>

text \<open>\<open>vector.unique()\<close> / \<open>pd.unique(vector)\<close>: the distinct values in first-seen order.\<close>

definition unique :: "'a list \<Rightarrow> 'a list" where
  "unique xs = rev (remdups (rev xs))"

fun num_key :: "pyval \<Rightarrow> rat" where
  "num_key (VNum q) = q"
| "num_key v = 0"

fun str_key :: "pyval \<Rightarrow> string" where
  "str_key (VStr s) = s"
| "str_key v = []"

fun date_key :: "pyval \<Rightarrow> int" where
  "date_key (VDate d) = d"
| "date_key v = 0"

text \<open>
  \<open>np.sort\<close> of an array of the given dtype. An array of a numeric dtype is sorted
  ascending with NaN last. Any other array holds objects and is sorted by Python's
  comparison of its elements: numbers ascending, strings by code point, datetimes by time;
  between \<open>None\<close> or values of different kinds the comparison raises TypeError; a sequence
  of at most one element is compared with nothing. In an object array that holds NaN beside
  numbers, every comparison with NaN is false and the arrangement that the sort leaves
  depends on the steps of numpy's sorting algorithm (it leaves \<open>[2, nan, 1]\<close> as it is): it
  is the parameter \<open>sort_nan\<close>.
\<close>

definition np_sort ::
  "(pyval list \<Rightarrow> pyval list) \<Rightarrow> dtype \<Rightarrow> pyval list \<Rightarrow> error + pyval list" where
  "np_sort sort_nan dt xs =
    (if length xs \<le> 1 then Inr xs
     else if list_all is_number xs
       then (if dt = DNumeric \<or> VNaN \<notin> set xs
             then Inr (sort_key num_key (filter (\<lambda>x. x \<noteq> VNaN) xs) @ filter (\<lambda>x. x = VNaN) xs)
             else Inr (sort_nan xs))
     else if list_all is_str xs then Inr (sort_key str_key xs)
     else if list_all is_datetime xs then Inr (sort_key date_key xs)
     else Inl (TypeError ''not supported between instances''))"

definition categorical_order ::
  "bool \<Rightarrow> (pyval list \<Rightarrow> pyval list) \<Rightarrow> series \<Rightarrow> pyval list option
     \<Rightarrow> error + pyval list" where
  "categorical_order nan_in sort_nan vector order =
    (case order of
       Some given \<Rightarrow> Inr given
     | None \<Rightarrow>
        (case sdtype vector of
           DCategory categories \<Rightarrow> Inr (filter notnull categories)
         | _ \<Rightarrow>
            (let order = unique (svals vector) in
             if variable_type nan_in vector Numeric = Numeric
             then (case np_sort sort_nan (sdtype vector) order of
                     Inl e \<Rightarrow> Inl e
                   | Inr sorted_order \<Rightarrow> Inr (filter notnull sorted_order))
             else Inr (filter notnull order))))"

section \<open>Dictionaries, colours and mapping specifications\<close>

text \<open>
  A Python dict is an association list in insertion order: \<open>d[k] = v\<close> replaces the
  value of a key that is present and appends a new key at the end, and \<open>d[k]\<close> reads
  the entry of the key (\<open>map_of\<close>).
\<close>

definition dict_set :: "('k \<times> 'v) list \<Rightarrow> 'k \<Rightarrow> 'v \<Rightarrow> ('k \<times> 'v) list" where
  "dict_set d k v = AList.update k v d"

definition dict_keys :: "('k \<times> 'v) list \<Rightarrow> 'k list" where
  "dict_keys d = map fst d"

text \<open>\<open>dict(zip(keys, values))\<close>: a key that occurs again overwrites its earlier value.\<close>

definition dict_zip :: "'k list \<Rightarrow> 'v list \<Rightarrow> ('k \<times> 'v) list" where
  "dict_zip ks vs = foldl (\<lambda>d (k, v). dict_set d k v) [] (zip ks vs)"

datatype color = RGB rat rat rat | RGBA rat rat rat rat | CName string

text \<open>
  The \<open>palette\<close> argument: absent, a palette name, a dict from levels to colours, a list
  of colours, or another object (a colormap).
\<close>

datatype palette =
    PNone
  | PName string
  | PDict "(pyval \<times> color) list"
  | PList "color list"
  | PCmap string

text \<open>
  A normalisation object is used through its call \<open>norm(key)\<close>, which raises or returns
  a value that may be masked (\<open>None\<close>); a colormap through \<open>cmap(normed)\<close>, where a
  masked value has been replaced by NaN (\<open>None\<close>).
\<close>

type_synonym norm_obj = "pyval \<Rightarrow> error + rat option"
type_synonym cmap_obj = "rat option \<Rightarrow> color"

datatype norm_arg = NormTuple "rat list" | NormObject norm_obj | NormOther

section \<open>Tables, the object store and the plotter\<close>

text \<open>
  A DataFrame: the columns in order, each with its dtype, and the rows, each with its
  index label and its cells in column order.
\<close>

record table =
  tcolumns :: "(string \<times> dtype) list"
  trows :: "(nat \<times> pyval list) list"

definition colnames :: "table \<Rightarrow> string list" where
  "colnames t = map fst (tcolumns t)"

text \<open>The cell of a row in a named column; a cell that is not there reads as NaN.\<close>

definition cell :: "table \<Rightarrow> string \<Rightarrow> nat \<times> pyval list \<Rightarrow> pyval" where
  "cell t c r = (case map_of (zip (colnames t) (snd r)) c of Some v \<Rightarrow> v | None \<Rightarrow> VNaN)"

text \<open>\<open>frame[c]\<close> for a column that exists, and \<open>frame.get(c, default)\<close>.\<close>

definition column :: "table \<Rightarrow> string \<Rightarrow> series" where
  "column t c =
    \<lparr>sdtype = (case map_of (tcolumns t) c of Some d \<Rightarrow> d | None \<Rightarrow> DObject),
     svals = map (cell t c) (trows t)\<rparr>"

definition df_get :: "table \<Rightarrow> string \<Rightarrow> series \<Rightarrow> series" where
  "df_get t c dflt = (if c \<in> set (colnames t) then column t c else dflt)"

text \<open>
  Objects live in a store; a variable holds an address. Every pandas operation that
  returns a new frame allocates one.
\<close>

type_synonym heap = "table list"

definition alloc :: "heap \<Rightarrow> table \<Rightarrow> nat \<times> heap" where
  "alloc h t = (length h, h @ [t])"

text \<open>
  The collaborators outside this module, as the code calls them:
  \<^item> \<open>isin_nan\<close>: whether \<open>np.isin\<close> counts a NaN cell as a member of \<open>[0, 1, np.nan]\<close>;
  \<^item> \<open>sort_object_nan\<close>: the arrangement in which \<open>np.sort\<close> leaves an object array that
    holds NaN beside numbers;
  \<^item> \<open>QUAL_PALETTES\<close>: the names of the qualitative palettes (a constant of the palette
    module);
  \<^item> \<open>color_cycle_len\<close>: \<open>len(get_color_cycle())\<close>;
  \<^item> \<open>color_palette\<close>: the palette generator, from a palette spec and a count;
  \<^item> \<open>hue_numeric_mapping\<close>: the numeric strategy of the hue mapping, which builds
    matplotlib colormap and Normalize objects; no property below depends on its result;
  \<^item> \<open>facet_vars\<close>: the set \<open>{"col", "row"}\<close> in the order in which the interpreter
    iterates it;
  \<^item> \<open>convert_table\<close>: the contents of the unit-converted table that the \<open>comp_data\<close>
    property computes from \<open>plot_data\<close> with the attached axis converters;
  \<^item> \<open>convert_units\<close>, \<open>date2num\<close>, \<open>log10\<close>: the conversions of a level sequence by
    the axis converter of a variable, by \<open>mpl.dates.date2num\<close> and by \<open>np.log10\<close>;
  \<^item> \<open>log_scaled\<close>: whether the attached axes of a variable are log scaled
    (\<open>_log_scaled\<close>, which raises when they disagree);
  \<^item> \<open>to_str\<close>: \<open>str(v)\<close> of a value that is no string.
\<close>

record ext =
  isin_nan :: bool
  sort_object_nan :: "pyval list \<Rightarrow> pyval list"
  QUAL_PALETTES :: "string list"
  color_cycle_len :: nat
  color_palette :: "palette \<Rightarrow> nat \<Rightarrow> error + color list"
  hue_numeric_mapping :: "series \<Rightarrow> palette \<Rightarrow> norm_arg option
     \<Rightarrow> error + (pyval list \<times> (pyval \<times> color) list \<times> norm_obj option \<times> cmap_obj option)"
  facet_vars :: "string list"
  convert_table :: "table \<Rightarrow> error + table"
  convert_units :: "string \<Rightarrow> pyval list option \<Rightarrow> error + pyval list option"
  date2num :: "pyval list option \<Rightarrow> error + pyval list option"
  log10 :: "pyval list option \<Rightarrow> error + pyval list option"
  log_scaled :: "string \<Rightarrow> error + bool"
  to_str :: "pyval \<Rightarrow> string"

text \<open>
  The state of a \<open>VectorPlotter\<close>: \<open>plot_data\<close> is the address of the tidy table;
  \<open>var_levels_dict\<close> is \<open>_var_levels\<close>; \<open>map_levels\<close> holds, for each semantic
  mapping object \<open>_hue_map\<close>, \<open>_size_map\<close>, \<open>_style_map\<close> that exists, its \<open>levels\<close>
  attribute; \<open>ax_attached\<close> is \<open>hasattr(self, "ax")\<close>; \<open>comp_data_cache\<close> is the
  address of \<open>_comp_data\<close> once it exists.
\<close>

record plotter =
  plot_data :: nat
  variables :: "(string \<times> pyval) list"
  var_types :: "(string \<times> var_type) list"
  input_format :: string
  var_levels_dict :: "(string \<times> pyval list option) list"
  var_ordered :: "(string \<times> bool) list"
  map_levels :: "(string \<times> pyval list option) list"
  ax_attached :: bool
  comp_data_cache :: "nat option"

section \<open>HueMapping\<close>

record hue_mapping =
  map_type :: "var_type option"
  levels :: "pyval list option"
  lookup_table :: "(pyval \<times> color) list option"
  palette_of :: palette
  norm :: "norm_obj option"
  cmap :: "cmap_obj option"

text \<open>\<open>palette in QUAL_PALETTES\<close>: only a name can equal one of the names.\<close>

fun palette_in :: "palette \<Rightarrow> string list \<Rightarrow> bool" where
  "palette_in (PName s) names = (s \<in> set names)"
| "palette_in p names = False"

fun is_dict_or_list :: "palette \<Rightarrow> bool" where
  "is_dict_or_list (PDict d) = True"
| "is_dict_or_list (PList l) = True"
| "is_dict_or_list p = False"

definition hue_infer_map_type ::
  "ext \<Rightarrow> palette \<Rightarrow> norm_arg option \<Rightarrow> string \<Rightarrow> var_type \<Rightarrow> var_type" where
  "hue_infer_map_type E palette norm_a input_fmt var_type =
    (if palette_in palette (QUAL_PALETTES E) then Categorical
     else if norm_a \<noteq> None then Numeric
     else if is_dict_or_list palette then Categorical
     else if input_fmt = ''wide'' then Categorical
     else var_type)"

text \<open>
  \<open>set(levels) - set(palette)\<close> as the list of the distinct levels that are no key of
  the dict, and \<open>any(missing)\<close>: some element of it is truthy.
\<close>

definition missing_keys :: "pyval list \<Rightarrow> (pyval \<times> 'v) list \<Rightarrow> pyval list" where
  "missing_keys lvls d = filter (\<lambda>l. l \<notin> set (dict_keys d)) (unique lvls)"

definition hue_categorical_mapping ::
  "ext \<Rightarrow> series \<Rightarrow> palette \<Rightarrow> pyval list option
     \<Rightarrow> error + (pyval list \<times> (pyval \<times> color) list)" where
  "hue_categorical_mapping E data palette order =
    (case categorical_order (isin_nan E) (sort_object_nan E) data order of
       Inl e \<Rightarrow> Inl e
     | Inr lvls \<Rightarrow>
        (let n_colors = length lvls in
         case palette of
           PDict d \<Rightarrow>
             (let missing = missing_keys lvls d in
              if list_ex truthy missing
              then Inl (ValueError ''The palette dictionary is missing keys'')
              else Inr (lvls, d))
         | PNone \<Rightarrow>
             (case (if n_colors \<le> color_cycle_len E
                    then color_palette E PNone n_colors
                    else color_palette E (PName ''husl'') n_colors) of
                Inl e \<Rightarrow> Inl e
              | Inr colors \<Rightarrow> Inr (lvls, dict_zip lvls colors))
         | PList l \<Rightarrow>
             (if length l \<noteq> n_colors
              then Inl (ValueError ''The palette list has the wrong number of colors.'')
              else Inr (lvls, dict_zip lvls l))
         | _ \<Rightarrow>
             (case color_palette E palette n_colors of
                Inl e \<Rightarrow> Inl e
              | Inr colors \<Rightarrow> Inr (lvls, dict_zip lvls colors))))"

text \<open>
  The constructor. A mapping whose column is absent or all null keeps the class
  attributes, all \<open>None\<close>. The datetime strategy is the categorical one on \<open>list(data)\<close>.
\<close>

definition absent_hue_mapping :: hue_mapping where
  "absent_hue_mapping =
    \<lparr>map_type = None, levels = None, lookup_table = None, palette_of = PNone,
     norm = None, cmap = None\<rparr>"

definition HueMapping ::
  "ext \<Rightarrow> heap \<Rightarrow> plotter \<Rightarrow> palette \<Rightarrow> pyval list option \<Rightarrow> norm_arg option
     \<Rightarrow> error + hue_mapping" where
  "HueMapping E h plotter palette order norm_a =
    (let data = df_get (h ! plot_data plotter) ''hue'' \<lparr>sdtype = DNumeric, svals = []\<rparr> in
     if list_all isna (svals data) then Inr absent_hue_mapping
     else
       (case map_of (var_types plotter) ''hue'' of
          None \<Rightarrow> Inl (KeyError ''hue'')
        | Some var_type \<Rightarrow>
           (let mt = hue_infer_map_type E palette norm_a (input_format plotter) var_type in
            if mt = Numeric then
              (case hue_numeric_mapping E data palette norm_a of
                 Inl e \<Rightarrow> Inl e
               | Inr (lvls, table, norm', cmap') \<Rightarrow>
                   Inr \<lparr>map_type = Some mt, levels = Some lvls, lookup_table = Some table,
                        palette_of = palette, norm = norm', cmap = cmap'\<rparr>)
            else
              (case hue_categorical_mapping E
                      (if mt = Categorical then data else \<lparr>sdtype = DObject, svals = svals data\<rparr>)
                      palette order of
                 Inl e \<Rightarrow> Inl e
               | Inr (lvls, table) \<Rightarrow>
                   Inr \<lparr>map_type = Some mt, levels = Some lvls, lookup_table = Some table,
                        palette_of = palette, norm = None, cmap = None\<rparr>))))"

text \<open>
  \<open>_lookup_single\<close>. Only a KeyError of the table lookup is caught; a mapping without a
  table fails on the subscript. In the handler of the TypeError, \<open>np.isnan(key)\<close> is true
  for NaN and itself raises a TypeError for a key that is no number.
\<close>

definition hue_lookup_single :: "hue_mapping \<Rightarrow> pyval \<Rightarrow> error + color" where
  "hue_lookup_single m key =
    (case lookup_table m of
       None \<Rightarrow> Inl (TypeError ''NoneType object is not subscriptable'')
     | Some table \<Rightarrow>
        (case map_of table key of
           Some value \<Rightarrow> Inr value
         | None \<Rightarrow>
            (case norm m of
               None \<Rightarrow> Inr (RGBA 0 0 0 0)
             | Some nrm \<Rightarrow>
                (case nrm key of
                   Inl (TypeError msg) \<Rightarrow>
                     (if key = VNaN then Inr (RGBA 0 0 0 0) else Inl (TypeError msg))
                 | Inl e \<Rightarrow> Inl e
                 | Inr normed \<Rightarrow>
                     (case cmap m of
                        None \<Rightarrow> Inl (TypeError ''NoneType object is not callable'')
                      | Some cm \<Rightarrow> Inr (cm normed))))))"

section \<open>Operations on tables\<close>

text \<open>\<open>frame.dropna()\<close>: the rows without a null cell, as a new frame.\<close>

definition df_dropna :: "table \<Rightarrow> table" where
  "df_dropna t =
    t\<lparr>trows := filter (\<lambda>r. list_all (\<lambda>c. notnull (cell t c r)) (colnames t)) (trows t)\<rparr>"

text \<open>
  The rows of the group of a key under \<open>groupby(grouping_vars, sort=False)\<close>: the rows whose
  cells in the grouping columns equal the key; a row with a null in a grouping column is in
  no group. \<open>get_group\<close> raises KeyError for a key without rows.
\<close>

definition group_rows :: "table \<Rightarrow> string list \<Rightarrow> pyval list \<Rightarrow> (nat \<times> pyval list) list" where
  "group_rows t gv key =
    filter (\<lambda>r. map (\<lambda>c. cell t c r) gv = key \<and> list_all notnull key) (trows t)"

definition get_group :: "table \<Rightarrow> string list \<Rightarrow> pyval list \<Rightarrow> error + table" where
  "get_group t gv key =
    (let rows = group_rows t gv key in
     if rows = [] then Inl (KeyError ''get_group'') else Inr (t\<lparr>trows := rows\<rparr>))"

text \<open>\<open>data.loc[[]]\<close>: no rows, the same columns.\<close>

definition df_loc_empty :: "table \<Rightarrow> table" where
  "df_loc_empty t = t\<lparr>trows := []\<rparr>"

text \<open>\<open>frame.empty\<close>: one of the two axes has length 0.\<close>

definition df_empty :: "table \<Rightarrow> bool" where
  "df_empty t = (trows t = [] \<or> tcolumns t = [])"

definition index_of :: "'a \<Rightarrow> 'a list \<Rightarrow> nat" where
  "index_of c names = length (takeWhile (\<lambda>n. n \<noteq> c) names)"

text \<open>
  \<open>frame[c] = vector\<close>, in place: the column is replaced where it stands, or appended.
  The vector comes from the same frame, so its values go to the rows by position.
\<close>

definition df_set_column :: "table \<Rightarrow> string \<Rightarrow> series \<Rightarrow> table" where
  "df_set_column t c s =
    (if c \<in> set (colnames t)
     then (let i = index_of c (colnames t) in
           \<lparr>tcolumns = (tcolumns t)[i := (c, sdtype s)],
            trows = map (\<lambda>(r, v). (fst r, (snd r)[i := v])) (zip (trows t) (svals s))\<rparr>)
     else \<lparr>tcolumns = tcolumns t @ [(c, sdtype s)],
           trows = map (\<lambda>(r, v). (fst r, snd r @ [v])) (zip (trows t) (svals s))\<rparr>)"

text \<open>\<open>frame[c] = scalar\<close>: the scalar in every row.\<close>

definition df_set_scalar :: "table \<Rightarrow> string \<Rightarrow> pyval \<Rightarrow> table" where
  "df_set_scalar t c v =
    df_set_column t c \<lparr>sdtype = DObject, svals = replicate (length (trows t)) v\<rparr>"

text \<open>
  \<open>frame.sort_values(c, kind="mergesort")\<close>: a new frame with the rows in ascending order
  of the column, stable, the rows with a null in the column last.
\<close>

definition df_sort_values :: "table \<Rightarrow> string \<Rightarrow> error + table" where
  "df_sort_values t c =
    (if c \<notin> set (colnames t) then Inl (KeyError c)
     else
      (let present = filter (\<lambda>r. notnull (cell t c r)) (trows t);
           missing = filter (\<lambda>r. isna (cell t c r)) (trows t);
           vals = map (cell t c) present
       in if list_all is_number vals
            then Inr (t\<lparr>trows := sort_key (\<lambda>r. num_key (cell t c r)) present @ missing\<rparr>)
          else if list_all is_str vals
            then Inr (t\<lparr>trows := sort_key (\<lambda>r. str_key (cell t c r)) present @ missing\<rparr>)
          else if list_all is_datetime vals
            then Inr (t\<lparr>trows := sort_key (\<lambda>r. date_key (cell t c r)) present @ missing\<rparr>)
          else Inl (TypeError ''not supported between instances'')))"

text \<open>
  \<open>vector.astype(str)\<close> and \<open>vector.map(formatter)\<close>. A string is its own \<open>str\<close>. The
  mapped vector keeps a categorical dtype when the mapped categories stay distinct;
  otherwise pandas infers the dtype from the mapped values.
\<close>

definition str_val :: "ext \<Rightarrow> pyval \<Rightarrow> pyval" where
  "str_val E v = (case v of VStr s \<Rightarrow> VStr s | _ \<Rightarrow> VStr (to_str E v))"

definition astype_str :: "ext \<Rightarrow> series \<Rightarrow> series" where
  "astype_str E s = \<lparr>sdtype = DObject, svals = map (str_val E) (svals s)\<rparr>"

definition infer_dtype :: "pyval list \<Rightarrow> dtype" where
  "infer_dtype vals =
    (if vals \<noteq> [] \<and> list_all is_number vals then DNumeric
     else if vals \<noteq> [] \<and> list_all is_datetime vals then DDatetime
     else DObject)"

definition series_map :: "(pyval \<Rightarrow> pyval) \<Rightarrow> series \<Rightarrow> series" where
  "series_map f s =
    (let vals = map f (svals s) in
     case sdtype s of
       DCategory categories \<Rightarrow>
         (if distinct (map f categories)
          then \<lparr>sdtype = DCategory (map f categories), svals = vals\<rparr>
          else \<lparr>sdtype = infer_dtype vals, svals = vals\<rparr>)
     | _ \<Rightarrow> \<lparr>sdtype = infer_dtype vals, svals = vals\<rparr>)"

section \<open>VectorPlotter: levels and the converted table\<close>

text \<open>
  The \<open>var_levels\<close> property: for every variable that has a semantic mapping object, the
  levels of the mapping are written into \<open>_var_levels\<close>, which is then returned.
\<close>

definition var_levels :: "plotter \<Rightarrow> plotter" where
  "var_levels p =
    p\<lparr>var_levels_dict :=
        foldl (\<lambda>d var. case map_of (map_levels p) var of
                          Some lvls \<Rightarrow> dict_set d var lvls
                        | None \<Rightarrow> d)
          (var_levels_dict p) (dict_keys (variables p))\<rparr>"

text \<open>
  The \<open>comp_data\<close> property: without attached axes it is \<open>plot_data\<close> itself; otherwise
  the converted table, computed into a new frame at the first access and kept.
\<close>

definition comp_data :: "ext \<Rightarrow> heap \<Rightarrow> plotter \<Rightarrow> error + (nat \<times> heap \<times> plotter)" where
  "comp_data E h p =
    (if \<not> ax_attached p then Inr (plot_data p, h, p)
     else
      (case comp_data_cache p of
         Some a \<Rightarrow> Inr (a, h, p)
       | None \<Rightarrow>
          (case convert_table E (h ! plot_data p) of
             Inl e \<Rightarrow> Inl e
           | Inr t \<Rightarrow>
              (let (a, h') = alloc h t in Inr (a, h', p\<lparr>comp_data_cache := Some a\<rparr>)))))"

section \<open>VectorPlotter.iter\_data\<close>

datatype grouping = GNone | GStr string | GSeq "string list"

record iter_opts =
  reverse :: bool
  from_comp_data :: bool
  by_facet :: bool
  allow_empty :: bool
  dropna :: bool

definition default_opts :: iter_opts where
  "default_opts =
    \<lparr>reverse = False, from_comp_data = False, by_facet = True, allow_empty = False,
     dropna = True\<rparr>"

text \<open>The grouping variables: the argument as a list, the facet variables, the used ones.\<close>

definition iter_grouping_vars :: "ext \<Rightarrow> plotter \<Rightarrow> grouping \<Rightarrow> iter_opts \<Rightarrow> string list" where
  "iter_grouping_vars E p grouping_vars opts =
    (let gv0 = (case grouping_vars of GNone \<Rightarrow> [] | GStr s \<Rightarrow> [s] | GSeq l \<Rightarrow> l);
         gv1 = (if by_facet opts
                then gv0 @ filter (\<lambda>v. v \<in> set (dict_keys (variables p)) \<and> v \<notin> set gv0)
                             (facet_vars E)
                else gv0)
     in filter (\<lambda>var. var \<in> set (dict_keys (variables p))) gv1)"

text \<open>
  The levels of one axis variable in the units of the converted table
  (the body of \<open>for axis in {"x", "y"} &amp; set(grouping_vars)\<close>).
\<close>

definition convert_level ::
  "(pyval list option \<Rightarrow> error + pyval list option) \<Rightarrow> (string \<times> pyval list option) list
     \<Rightarrow> string \<Rightarrow> error + (string \<times> pyval list option) list" where
  "convert_level f lv axis =
    (case map_of lv axis of
       None \<Rightarrow> Inl (KeyError axis)
     | Some l \<Rightarrow> (case f l of Inl e \<Rightarrow> Inl e | Inr l' \<Rightarrow> Inr (dict_set lv axis l')))"

definition comp_level_axis ::
  "ext \<Rightarrow> plotter \<Rightarrow> table \<Rightarrow> (string \<times> pyval list option) list \<Rightarrow> string
     \<Rightarrow> error + (string \<times> pyval list option) list" where
  "comp_level_axis E p data lv axis =
    (case map_of (var_types p) axis of
       None \<Rightarrow> Inl (KeyError axis)
     | Some Categorical \<Rightarrow>
        (case map_of (var_ordered p) axis of
           None \<Rightarrow> Inl (KeyError axis)
         | Some True \<Rightarrow>
            (if \<not> ax_attached p then Inl (AttributeError ''converters'')
             else convert_level (convert_units E axis) lv axis)
         | Some False \<Rightarrow>
            (if axis \<notin> set (colnames data) then Inl (KeyError axis)
             else (case np_sort (sort_object_nan E) (sdtype (column data axis))
                          (unique (svals (column data axis))) of
                     Inl e \<Rightarrow> Inl e
                   | Inr s \<Rightarrow> Inr (dict_set lv axis (Some s)))))
     | Some Datetime \<Rightarrow> convert_level (date2num E) lv axis
     | Some Numeric \<Rightarrow>
        (case (if ax_attached p then log_scaled E axis else Inr False) of
           Inl e \<Rightarrow> Inl e
         | Inr True \<Rightarrow> convert_level (log10 E) lv axis
         | Inr False \<Rightarrow> Inr lv))"

fun comp_levels ::
  "ext \<Rightarrow> plotter \<Rightarrow> table \<Rightarrow> (string \<times> pyval list option) list \<Rightarrow> string list
     \<Rightarrow> error + (string \<times> pyval list option) list" where
  "comp_levels E p data lv [] = Inr lv"
| "comp_levels E p data lv (axis # axes) =
    (case comp_level_axis E p data lv axis of
       Inl e \<Rightarrow> Inl e
     | Inr lv' \<Rightarrow> comp_levels E p data lv' axes)"

text \<open>
  Everything before \<open>if grouping_vars:\<close>: the grouping variables, the table to iterate
  (a new frame when \<open>dropna\<close>), and the levels (a copy of \<open>var_levels\<close>, converted when
  \<open>from_comp_data\<close>).
\<close>

definition iter_setup ::
  "ext \<Rightarrow> heap \<Rightarrow> plotter \<Rightarrow> grouping \<Rightarrow> iter_opts
     \<Rightarrow> error + (string list \<times> nat \<times> heap \<times> plotter \<times> (string \<times> pyval list option) list)" where
  "iter_setup E h p grouping_vars opts =
    (let gv = iter_grouping_vars E p grouping_vars opts in
     case (if from_comp_data opts then comp_data E h p else Inr (plot_data p, h, p)) of
       Inl e \<Rightarrow> Inl e
     | Inr (data0, h1, p1) \<Rightarrow>
        (let (data, h2) = (if dropna opts then alloc h1 (df_dropna (h1 ! data0)) else (data0, h1));
             p2 = var_levels p1;
             lv = var_levels_dict p2
         in if from_comp_data opts
            then (case comp_levels E p2 (h2 ! data) lv (filter (\<lambda>a. a \<in> set gv) [''x'', ''y'']) of
                    Inl e \<Rightarrow> Inl e
                  | Inr lv' \<Rightarrow> Inr (gv, data, h2, p2, lv'))
            else Inr (gv, data, h2, p2, lv)))"

text \<open>
  \<open>levels.get(var, [])\<close> for every grouping variable; \<open>itertools.product\<close> fails on a
  level entry that is \<open>None\<close>.
\<close>

definition grouping_keys ::
  "(string \<times> pyval list option) list \<Rightarrow> string list \<Rightarrow> error + pyval list list" where
  "grouping_keys lv gv =
    (if list_ex (\<lambda>var. map_of lv var = Some None) gv
     then Inl (TypeError ''NoneType object is not iterable'')
     else Inr (map (\<lambda>var. case map_of lv var of Some (Some l) \<Rightarrow> l | _ \<Rightarrow> []) gv))"

text \<open>
  The loop over the keys. A generator hands each pair to its consumer and resumes when the
  consumer asks for the next one; what the consumer does to the frame it was handed is the
  function \<open>consumer\<close> (the identity for a consumer that only reads). A yield is recorded
  as the key, the address of the yielded frame and its contents when yielded.
\<close>

fun iter_loop ::
  "((string \<times> pyval) list \<Rightarrow> table \<Rightarrow> table) \<Rightarrow> heap \<Rightarrow> nat \<Rightarrow> string list \<Rightarrow> bool
     \<Rightarrow> pyval list list \<Rightarrow> ((string \<times> pyval) list \<times> nat \<times> table) list \<times> heap" where
  "iter_loop consumer h data gv allow [] = ([], h)"
| "iter_loop consumer h data gv allow (key # keys) =
    (let (data_subset, h1) =
           (case get_group (h ! data) gv key of
              Inr g \<Rightarrow> alloc h g
            | Inl e \<Rightarrow> alloc h (df_loc_empty (h ! data)))
     in if df_empty (h1 ! data_subset) \<and> \<not> allow
        then iter_loop consumer h1 data gv allow keys
        else
         (let sub_vars = dict_zip gv key;
              (c, h2) = alloc h1 (h1 ! data_subset);
              h3 = h2[c := consumer sub_vars (h2 ! c)];
              (ys, h4) = iter_loop consumer h3 data gv allow keys
          in ((sub_vars, c, h2 ! c) # ys, h4)))"

definition iter_data ::
  "ext \<Rightarrow> ((string \<times> pyval) list \<Rightarrow> table \<Rightarrow> table) \<Rightarrow> heap \<Rightarrow> plotter \<Rightarrow> grouping
     \<Rightarrow> iter_opts
     \<Rightarrow> error + (((string \<times> pyval) list \<times> nat \<times> table) list \<times> heap \<times> plotter)" where
  "iter_data E consumer h p grouping_vars opts =
    (case iter_setup E h p grouping_vars opts of
       Inl e \<Rightarrow> Inl e
     | Inr (gv, data, h2, p2, lv) \<Rightarrow>
        (if gv \<noteq> [] then
           (if \<not> set gv \<subseteq> set (colnames (h2 ! data)) then Inl (KeyError ''groupby'')
            else
             (case grouping_keys lv gv of
                Inl e \<Rightarrow> Inl e
              | Inr gkeys \<Rightarrow>
                 (let iter_keys = product_lists gkeys;
                      iter_keys' = (if reverse opts then rev iter_keys else iter_keys);
                      (ys, h3) = iter_loop consumer h2 data gv (allow_empty opts) iter_keys'
                  in Inr (ys, h3, p2))))
         else
           (let (c, h3) = alloc h2 (h2 ! data)
            in Inr ([([], c, h3 ! c)], h3[c := consumer [] (h3 ! c)], p2))))"

section \<open>VectorPlotter.scale\_categorical\<close>

text \<open>
  Modelled from the spec: \<open>_check_argument\<close> (of the utilities module, which is not part
  of the sources at hand) accepts the axis when it is one of the options \<open>x\<close>, \<open>y\<close> and
  raises ValueError otherwise.
\<close>

definition check_argument :: "string \<Rightarrow> string list \<Rightarrow> string \<Rightarrow> error + unit" where
  "check_argument param options val =
    (if val \<in> set options then Inr () else Inl (ValueError (param @ '' must be one of'')))"

definition scale_categorical ::
  "ext \<Rightarrow> heap \<Rightarrow> plotter \<Rightarrow> string \<Rightarrow> pyval list option \<Rightarrow> (pyval \<Rightarrow> pyval) option
     \<Rightarrow> error + (heap \<times> plotter)" where
  "scale_categorical E h p axis order formatter =
    (case check_argument ''axis'' [''x'', ''y''] axis of
       Inl e \<Rightarrow> Inl e
     | Inr u \<Rightarrow>
        (let (h1, p1) =
               (if axis \<notin> set (dict_keys (variables p))
                then (h[plot_data p := df_set_scalar (h ! plot_data p) axis (VStr [])],
                      p\<lparr>variables := dict_set (variables p) axis VNone,
                        var_types := dict_set (var_types p) axis Categorical\<rparr>)
                else (h, p))
         in case map_of (var_types p1) axis of
              None \<Rightarrow> Inl (KeyError axis)
            | Some vt \<Rightarrow>
               (case (if vt = Numeric
                      then (case df_sort_values (h1 ! plot_data p1) axis of
                              Inl e \<Rightarrow> Inl e
                            | Inr t \<Rightarrow> (let (a, h') = alloc h1 t in Inr (h', p1\<lparr>plot_data := a\<rparr>)))
                      else Inr (h1, p1)) of
                  Inl e \<Rightarrow> Inl e
                | Inr (h2, p2) \<Rightarrow>
                   (if axis \<notin> set (colnames (h2 ! plot_data p2)) then Inl (KeyError axis)
                    else
                     (let cat_data = column (h2 ! plot_data p2) axis;
                          p3 = p2\<lparr>var_ordered :=
                                   dict_set (var_ordered p2) axis
                                     (order \<noteq> None \<or> is_categorical_dtype cat_data)\<rparr>
                      in case categorical_order (isin_nan E) (sort_object_nan E) cat_data order of
                           Inl e \<Rightarrow> Inl e
                         | Inr ord \<Rightarrow>
                            (let (cat_data', ord') =
                                   (case formatter of
                                      Some f \<Rightarrow> (series_map f cat_data, map f ord)
                                    | None \<Rightarrow> (astype_str E cat_data, map (str_val E) ord));
                                 p4 = var_levels p3;
                                 p5 = p4\<lparr>var_levels_dict :=
                                          dict_set (var_levels_dict p4) axis (Some ord')\<rparr>;
                                 p6 = p5\<lparr>var_types := dict_set (var_types p5) axis Categorical\<rparr>
                             in Inr (h2[plot_data p6 :=
                                          df_set_column (h2 ! plot_data p6) axis cat_data'],
                                     p6)))))))"

section \<open>Reading an iteration\<close>

text \<open>
  What one pass of the loop yields for a key, read off the table alone: the key as a
  dict of the grouping variables and the group (or the empty frame), unless the group is
  empty and empty groups are not allowed.
\<close>

definition group_yield ::
  "table \<Rightarrow> string list \<Rightarrow> bool \<Rightarrow> pyval list \<Rightarrow> ((string \<times> pyval) list \<times> table) list" where
  "group_yield t gv allow key =
    (let g = (case get_group t gv key of Inr g \<Rightarrow> g | Inl e \<Rightarrow> df_loc_empty t)
     in if df_empty g \<and> \<not> allow then [] else [(dict_zip gv key, g)])"

text \<open>The pair \<open>(sub_vars, frame)\<close> that the consumer of a yield sees.\<close>

definition yielded_pair :: "(string \<times> pyval) list \<times> nat \<times> table \<Rightarrow> (string \<times> pyval) list \<times> table" where
  "yielded_pair y = (fst y, snd (snd y))"

text \<open>
  The references of a plotter point into the store: \<open>plot_data\<close> and, when it exists,
  the kept converted table.
\<close>

definition valid_plotter :: "heap \<Rightarrow> plotter \<Rightarrow> bool" where
  "valid_plotter h p =
    (plot_data p < length h \<and> (case comp_data_cache p of Some a \<Rightarrow> a < length h | None \<Rightarrow> True))"

section \<open>Example data\<close>

text \<open>
  An environment, a tidy table with a \<open>hue\<close> column whose mapping has a level \<open>c\<close>
  without rows, a table with a categorical \<open>x\<close> column, and a formatter that appends a
  unit.
\<close>

text \<open>
  For \<open>sort_object_nan\<close> the environment takes the arrangement that an insertion sort by
  Python's \<open>&lt;\<close> leaves, which is how numpy sorts a short object array: each element moves
  left past the elements it is less than, and NaN is less than nothing and nothing is less
  than NaN.
\<close>

fun py_lt :: "pyval \<Rightarrow> pyval \<Rightarrow> bool" where
  "py_lt (VNum a) (VNum b) = (a < b)"
| "py_lt x y = False"

text \<open>The sorted prefix is kept in reverse, its last element first.\<close>

fun insert_lt :: "pyval \<Rightarrow> pyval list \<Rightarrow> pyval list" where
  "insert_lt v [] = [v]"
| "insert_lt v (p # ps) = (if py_lt v p then p # insert_lt v ps else v # p # ps)"

definition insertion_sort :: "pyval list \<Rightarrow> pyval list" where
  "insertion_sort xs = rev (foldl (\<lambda>acc v. insert_lt v acc) [] xs)"

definition example_ext :: ext where
  "example_ext =
    \<lparr>isin_nan = False,
     sort_object_nan = insertion_sort,
     QUAL_PALETTES =
       [''tab10'', ''tab20'', ''tab20b'', ''tab20c'', ''Set1'', ''Set2'', ''Set3'', ''Accent'',
        ''Paired'', ''Pastel1'', ''Pastel2'', ''Dark2'', ''deep'', ''deep6'', ''muted'',
        ''muted6'', ''pastel'', ''pastel6'', ''bright'', ''bright6'', ''dark'', ''dark6'',
        ''colorblind'', ''colorblind6''],
     color_cycle_len = 10,
     color_palette = (\<lambda>p n. Inr (map (\<lambda>i. RGB (of_nat i / of_nat n) 0 0) [0..<n])),
     hue_numeric_mapping = (\<lambda>data p n. Inl (ValueError ''numeric mapping'')),
     facet_vars = [''col'', ''row''],
     convert_table = (\<lambda>t. Inr t),
     convert_units = (\<lambda>axis l. Inr l),
     date2num = (\<lambda>l. Inr l),
     log10 = (\<lambda>l. Inr l),
     log_scaled = (\<lambda>axis. Inr False),
     to_str = (\<lambda>v. ''?'')\<rparr>"

definition example_table :: table where
  "example_table =
    \<lparr>tcolumns = [(''x'', DNumeric), (''hue'', DObject)],
     trows = [(0, [VNum 1, VStr ''a'']), (1, [VNum 2, VStr ''b'']), (2, [VNum 3, VStr ''a''])]\<rparr>"

definition example_plotter :: plotter where
  "example_plotter =
    \<lparr>plot_data = 0,
     variables = [(''x'', VStr ''x''), (''hue'', VStr ''hue'')],
     var_types = [(''x'', Numeric), (''hue'', Categorical)],
     input_format = ''long'',
     var_levels_dict = [],
     var_ordered = [(''x'', False), (''y'', False)],
     map_levels = [(''hue'', Some [VStr ''a'', VStr ''b'', VStr ''c'']), (''size'', None),
                   (''style'', None)],
     ax_attached = False,
     comp_data_cache = None\<rparr>"

definition example_formatter :: "pyval \<Rightarrow> pyval" where
  "example_formatter v = (case v of VStr s \<Rightarrow> VStr (s @ '' cm'') | _ \<Rightarrow> v)"

definition example_cat_table :: table where
  "example_cat_table =
    \<lparr>tcolumns = [(''x'', DObject), (''y'', DNumeric)],
     trows = [(0, [VStr ''a'', VNum 1]), (1, [VStr ''b'', VNum 2])]\<rparr>"

definition example_cat_plotter :: plotter where
  "example_cat_plotter =
    \<lparr>plot_data = 0,
     variables = [(''x'', VStr ''x''), (''y'', VStr ''y'')],
     var_types = [(''x'', Categorical), (''y'', Numeric)],
     input_format = ''long'',
     var_levels_dict = [],
     var_ordered = [(''x'', False), (''y'', False)],
     map_levels = [(''hue'', None), (''size'', None), (''style'', None)],
     ax_attached = False,
     comp_data_cache = None\<rparr>"

section \<open>Properties of the type classifier\<close>

lemma set_unique [simp]: "set (unique xs) = set xs"
  by (simp add: unique_def)

lemma distinct_unique [simp]: "distinct (unique xs)"
  by (simp add: unique_def)

text \<open>
  C1, as stated, fails. A vector of 0/1 values with a categorical dtype is categorical even
  when the flag requests numeric, and an all-null vector (here a single NaN) is numeric
  even when the flag requests categorical: both rules run before the 0/1 rule. And a vector
  of 0/1 values that also holds a null is not taken by the 0/1 rule: with NaN in a numeric
  column it is numeric under a categorical flag, with \<open>None\<close> in an object column it is
  categorical under a numeric flag.
\<close>

theorem variable_type_binary_counterexample:
  "variable_type True \<lparr>sdtype = DCategory [VNum 0, VNum 1], svals = [VNum 0, VNum 1]\<rparr> Numeric
      = Categorical
   \<and> variable_type False \<lparr>sdtype = DCategory [VNum 0, VNum 1], svals = [VNum 0, VNum 1]\<rparr> Numeric
      = Categorical
   \<and> variable_type True \<lparr>sdtype = DObject, svals = [VNaN]\<rparr> Categorical = Numeric
   \<and> variable_type False \<lparr>sdtype = DObject, svals = [VNaN]\<rparr> Categorical = Numeric
   \<and> variable_type False \<lparr>sdtype = DNumeric, svals = [VNum 0, VNum 1, VNaN]\<rparr> Categorical
      = Numeric
   \<and> variable_type True \<lparr>sdtype = DObject, svals = [VNum 0, VNum 1, VNone]\<rparr> Numeric
      = Categorical
   \<and> variable_type False \<lparr>sdtype = DObject, svals = [VNum 0, VNum 1, VNone]\<rparr> Numeric
      = Categorical"
  by (simp add: variable_type_def is_categorical_dtype_def is_numeric_dtype_def
      is_datetime64_dtype_def all_numeric_def all_datetime_def isna_def)

text \<open>
  C1, amended: a vector with a categorical dtype is categorical; otherwise a vector whose
  values are all null (the empty vector too) is numeric; otherwise a vector whose values
  are all exactly 0 or 1 gets the type that the flag requests, numeric or categorical,
  whatever its storage dtype, so that this rule runs before the numeric-dtype rule.
\<close>

theorem variable_type_binary:
  "(is_categorical_dtype vector
      \<longrightarrow> variable_type nan_in vector boolean_type = Categorical)
   \<and> (\<not> is_categorical_dtype vector \<and> list_all isna (svals vector)
      \<longrightarrow> variable_type nan_in vector boolean_type = Numeric)
   \<and> (\<not> is_categorical_dtype vector \<and> svals vector \<noteq> []
        \<and> list_all (\<lambda>v. v = VNum 0 \<or> v = VNum 1) (svals vector)
      \<longrightarrow> variable_type nan_in vector boolean_type = boolean_type)"
proof (intro conjI impI)
  assume "is_categorical_dtype vector"
  then show "variable_type nan_in vector boolean_type = Categorical"
    by (simp add: variable_type_def)
next
  assume "\<not> is_categorical_dtype vector \<and> list_all isna (svals vector)"
  then show "variable_type nan_in vector boolean_type = Numeric"
    by (simp add: variable_type_def)
next
  assume a: "\<not> is_categorical_dtype vector \<and> svals vector \<noteq> []
        \<and> list_all (\<lambda>v. v = VNum 0 \<or> v = VNum 1) (svals vector)"
  then obtain x xs where xs: "svals vector = x # xs"
    by (cases "svals vector") auto
  have "x = VNum 0 \<or> x = VNum 1" using a xs by simp
  then have "\<not> isna x" by (auto simp: isna_def)
  then have not_null: "\<not> list_all isna (svals vector)" by (simp add: xs)
  have "isin_0_1_nan nan_in v" if "v \<in> set (svals vector)" for v
    using a that by (auto simp: list_all_iff)
  then have "list_all (isin_0_1_nan nan_in) (svals vector)"
    by (simp add: list_all_iff)
  with a not_null show "variable_type nan_in vector boolean_type = boolean_type"
    by (simp add: variable_type_def)
qed

theorem variable_type_binary_witness:
  "is_categorical_dtype \<lparr>sdtype = DCategory [VNum 0, VNum 1], svals = [VNaN, VNone]\<rparr>
   \<and> variable_type False \<lparr>sdtype = DCategory [VNum 0, VNum 1], svals = [VNaN, VNone]\<rparr>
        Numeric = Categorical
   \<and> \<not> is_categorical_dtype \<lparr>sdtype = DObject, svals = [VNaN, VNone]\<rparr>
   \<and> list_all isna [VNaN, VNone]
   \<and> variable_type False \<lparr>sdtype = DObject, svals = [VNaN, VNone]\<rparr> Categorical = Numeric
   \<and> \<not> is_categorical_dtype \<lparr>sdtype = DNumeric, svals = [VNum 0, VNum 1, VNum 1]\<rparr>
   \<and> list_all (\<lambda>v. v = VNum 0 \<or> v = VNum 1) [VNum 0, VNum 1, VNum 1]
   \<and> variable_type False \<lparr>sdtype = DNumeric, svals = [VNum 0, VNum 1, VNum 1]\<rparr> Categorical
        = Categorical"
  using variable_type_binary
      [of "\<lparr>sdtype = DCategory [VNum 0, VNum 1], svals = [VNaN, VNone]\<rparr>" False Numeric]
    variable_type_binary [of "\<lparr>sdtype = DObject, svals = [VNaN, VNone]\<rparr>" False Categorical]
    variable_type_binary
      [of "\<lparr>sdtype = DNumeric, svals = [VNum 0, VNum 1, VNum 1]\<rparr>" False Categorical]
  by (simp add: is_categorical_dtype_def isna_def)

section \<open>Properties of the level order\<close>

text \<open>
  C2, as stated, fails: an explicit order is returned as it is, nulls included.
\<close>

theorem categorical_order_null_counterexample:
  "categorical_order False insertion_sort \<lparr>sdtype = DObject, svals = [VStr ''a'']\<rparr>
       (Some [VStr ''a'', VNaN])
     = Inr [VStr ''a'', VNaN]
   \<and> isna VNaN"
  by (simp add: categorical_order_def isna_def)

text \<open>
  C2, amended: when no explicit order is supplied, the sequence returned by
  \<open>categorical_order\<close> contains no null value; an explicit order is returned verbatim,
  with whatever nulls it holds.
\<close>

theorem categorical_order_no_null:
  "categorical_order nan_in sort_nan vector (Some given) = Inr given
   \<and> (\<forall>levels. categorical_order nan_in sort_nan vector None = Inr levels
        \<longrightarrow> list_all notnull levels)"
  by (auto simp: categorical_order_def Let_def list_all_iff
      split: dtype.splits sum.splits if_splits)

theorem categorical_order_no_null_witness:
  "categorical_order False insertion_sort
      \<lparr>sdtype = DObject, svals = [VStr ''b'', VNaN, VStr ''a'', VStr ''b'']\<rparr>
      None = Inr [VStr ''b'', VStr ''a'']
   \<and> list_all notnull [VStr ''b'', VStr ''a'']"
  using categorical_order_no_null [of False insertion_sort
      "\<lparr>sdtype = DObject, svals = [VStr ''b'', VNaN, VStr ''a'', VStr ''b'']\<rparr>" "[]"]
  by (simp add: categorical_order_def variable_type_def is_categorical_dtype_def
      is_numeric_dtype_def is_datetime64_dtype_def all_numeric_def all_datetime_def
      isna_def notnull_def unique_def)

section \<open>Properties of dictionaries\<close>

lemma foldl_dict_set_fresh:
  "distinct (map fst (acc @ ps)) \<Longrightarrow> foldl (\<lambda>d (k, v). dict_set d k v) acc ps = acc @ ps"
proof (induction ps arbitrary: acc)
  case Nil
  then show ?case by simp
next
  case (Cons p ps)
  obtain k v where p: "p = (k, v)" by (cases p)
  have fresh: "k \<notin> fst ` set acc" using Cons.prems p by auto
  have upd: "AList.update k v acc = acc @ [(k, v)]" using fresh
    by (induction acc) auto
  have "distinct (map fst ((acc @ [(k, v)]) @ ps))" using Cons.prems p by simp
  from Cons.IH [OF this] show ?case by (simp add: p dict_set_def upd)
qed

lemma dict_zip_distinct: "distinct ks \<Longrightarrow> dict_zip ks vs = zip ks vs"
  unfolding dict_zip_def
  using foldl_dict_set_fresh [of "[]" "zip ks vs"]
  by (simp add: map_fst_zip_take)

lemma dict_zip_inj:
  assumes "distinct ks" "length vs = length ks" "length ws = length ks"
    and "dict_zip ks vs = dict_zip ks ws"
  shows "vs = ws"
proof -
  have "zip ks vs = zip ks ws" using assms by (simp add: dict_zip_distinct)
  then have "map snd (zip ks vs) = map snd (zip ks ws)" by simp
  then show ?thesis using assms(2,3) by simp
qed

section \<open>Properties of the hue mapping\<close>

text \<open>
  C5, as stated, fails: with a normalisation argument, a dict palette gives the numeric
  strategy.
\<close>

theorem hue_infer_map_type_dict_counterexample:
  "hue_infer_map_type example_ext (PDict [(VStr ''a'', RGB 1 0 0)]) (Some (NormTuple [0, 1]))
      ''long'' Categorical = Numeric"
  by (simp add: hue_infer_map_type_def example_ext_def)

text \<open>
  C5, amended: for every hue mapping build where the palette spec is a dict or a list, the
  inferred map type is categorical when no \<open>norm\<close> is given and numeric when one is
  given, for every input format and every classified column type.
\<close>

theorem hue_infer_map_type_dict:
  assumes "is_dict_or_list palette"
  shows "hue_infer_map_type E palette norm_a input_fmt var_type
           = (if norm_a = None then Categorical else Numeric)"
  using assms by (cases palette) (simp_all add: hue_infer_map_type_def)

theorem hue_infer_map_type_dict_witness:
  "is_dict_or_list (PList [RGB 1 0 0, RGB 0 1 0])
   \<and> hue_infer_map_type example_ext (PList [RGB 1 0 0, RGB 0 1 0]) None ''long'' Numeric
       = Categorical"
  using hue_infer_map_type_dict [of "PList [RGB 1 0 0, RGB 0 1 0]" example_ext None "''long''" Numeric]
  by simp

text \<open>
  C3: a hue categorical mapping built with a dict palette should raise the missing-keys
  error when a level is no key of the dict. Here the level 0 of the data is no key of the
  dict, and the build returns the dict as the lookup table: \<open>any(missing)\<close> asks whether a
  missing level is truthy, and 0 is not.
\<close>

theorem hue_categorical_mapping_falsy_level:
  "hue_categorical_mapping E \<lparr>sdtype = DNumeric, svals = [VNum 0, VNum 1, VNum 2, VNum 1]\<rparr>
      (PDict [(VNum 1, RGB 1 0 0), (VNum 2, RGB 0 0 1)]) None
    = Inr ([VNum 0, VNum 1, VNum 2], [(VNum 1, RGB 1 0 0), (VNum 2, RGB 0 0 1)])"
proof -
  have "categorical_order (isin_nan E) (sort_object_nan E)
      \<lparr>sdtype = DNumeric, svals = [VNum 0, VNum 1, VNum 2, VNum 1]\<rparr> None
      = Inr [VNum 0, VNum 1, VNum 2]"
    by (simp add: categorical_order_def variable_type_def is_categorical_dtype_def
      is_numeric_dtype_def isna_def notnull_def unique_def np_sort_def)
  then show ?thesis
    by (simp add: hue_categorical_mapping_def missing_keys_def dict_keys_def unique_def)
qed

text \<open>
  C9: in a hue mapping built with the categorical strategy (the map type is categorical, or
  datetime, which uses the same strategy), the normalisation is \<open>None\<close>, and looking up
  a key that is not in the lookup table returns the transparent colour \<open>(0, 0, 0, 0)\<close>
  and raises nothing.
\<close>

theorem hue_lookup_unknown_key:
  assumes "HueMapping E h plotter palette order norm_a = Inr m"
    and "map_type m = Some mt" and "mt \<noteq> Numeric"
  shows "norm m = None
    \<and> (\<exists>table. lookup_table m = Some table
          \<and> (\<forall>key. key \<notin> set (dict_keys table) \<longrightarrow> hue_lookup_single m key = Inr (RGBA 0 0 0 0)))"
proof -
  have "norm m = None \<and> (\<exists>table. lookup_table m = Some table)"
    using assms
    by (auto simp: HueMapping_def Let_def absent_hue_mapping_def
        split: if_splits option.splits sum.splits prod.splits)
  then obtain table where t: "norm m = None" "lookup_table m = Some table" by blast
  have "hue_lookup_single m key = Inr (RGBA 0 0 0 0)" if "key \<notin> set (dict_keys table)" for key
  proof -
    have "map_of table key = None" using that by (simp add: dict_keys_def map_of_eq_None_iff)
    then show ?thesis by (simp add: hue_lookup_single_def t)
  qed
  with t show ?thesis by blast
qed

theorem hue_lookup_unknown_key_witness:
  "HueMapping example_ext [example_table] example_plotter
      (PDict [(VStr ''a'', RGB 1 0 0), (VStr ''b'', RGB 0 1 0)]) None None
     = Inr \<lparr>map_type = Some Categorical, levels = Some [VStr ''a'', VStr ''b''],
            lookup_table = Some [(VStr ''a'', RGB 1 0 0), (VStr ''b'', RGB 0 1 0)],
            palette_of = PDict [(VStr ''a'', RGB 1 0 0), (VStr ''b'', RGB 0 1 0)],
            norm = None, cmap = None\<rparr>
   \<and> hue_lookup_single
        \<lparr>map_type = Some Categorical, levels = Some [VStr ''a'', VStr ''b''],
         lookup_table = Some [(VStr ''a'', RGB 1 0 0), (VStr ''b'', RGB 0 1 0)],
         palette_of = PDict [(VStr ''a'', RGB 1 0 0), (VStr ''b'', RGB 0 1 0)],
         norm = None, cmap = None\<rparr> (VStr ''c'') = Inr (RGBA 0 0 0 0)"
proof -
  let ?pal = "PDict [(VStr ''a'', RGB 1 0 0), (VStr ''b'', RGB 0 1 0)]"
  let ?m = "\<lparr>map_type = Some Categorical, levels = Some [VStr ''a'', VStr ''b''],
         lookup_table = Some [(VStr ''a'', RGB 1 0 0), (VStr ''b'', RGB 0 1 0)],
         palette_of = ?pal, norm = None, cmap = None\<rparr>"
  have data: "df_get ([example_table] ! plot_data example_plotter) ''hue''
        \<lparr>sdtype = DNumeric, svals = []\<rparr>
      = \<lparr>sdtype = DObject, svals = [VStr ''a'', VStr ''b'', VStr ''a'']\<rparr>"
    by (simp add: df_get_def column_def cell_def colnames_def example_table_def
        example_plotter_def)
  have cat: "categorical_order False insertion_sort
      \<lparr>sdtype = DObject, svals = [VStr ''a'', VStr ''b'', VStr ''a'']\<rparr> None
      = Inr [VStr ''a'', VStr ''b'']"
    by (simp add: categorical_order_def variable_type_def is_categorical_dtype_def
      is_numeric_dtype_def is_datetime64_dtype_def all_numeric_def all_datetime_def
      isna_def notnull_def unique_def)
  have built: "HueMapping example_ext [example_table] example_plotter ?pal None None = Inr ?m"
    unfolding HueMapping_def data
    by (simp add: isna_def hue_infer_map_type_def hue_categorical_mapping_def
        missing_keys_def dict_keys_def unique_def cat example_ext_def example_plotter_def)
  have mt: "map_type ?m = Some Categorical" "Categorical \<noteq> Numeric" by simp_all
  from hue_lookup_unknown_key [OF built mt]
  have "hue_lookup_single ?m (VStr ''c'') = Inr (RGBA 0 0 0 0)"
    by (simp add: dict_keys_def)
  with built show ?thesis by blast
qed

section \<open>Properties of the iteration\<close>

lemma alloc_simps:
  "alloc h t = (a, h') \<Longrightarrow> a = length h \<and> h' = h @ [t]"
  by (auto simp: alloc_def)

lemma iter_loop_heap:
  "iter_loop c h d gv al keys = (ys, h') \<Longrightarrow>
     length h \<le> length h' \<and> (\<forall>a < length h. h' ! a = h ! a)
     \<and> (\<forall>y \<in> set ys. length h \<le> fst (snd y) \<and> fst (snd y) < length h')
     \<and> distinct (map (\<lambda>y. fst (snd y)) ys)"
proof (induction keys arbitrary: h ys h')
  case Nil
  then show ?case by simp
next
  case (Cons key keys)
  define g where "g = (case get_group (h ! d) gv key of Inr g \<Rightarrow> g | Inl e \<Rightarrow> df_loc_empty (h ! d))"
  define h1 where "h1 = h @ [g]"
  have sub: "(case get_group (h ! d) gv key of Inr g \<Rightarrow> alloc h g | Inl e \<Rightarrow> alloc h (df_loc_empty (h ! d)))
      = (length h, h1)"
    by (simp add: g_def h1_def alloc_def split: sum.splits)
  have h1g: "h1 ! length h = g" by (simp add: h1_def)
  show ?case
  proof (cases "df_empty g \<and> \<not> al")
    case True
    then have "iter_loop c h1 d gv al keys = (ys, h')"
      using Cons.prems by (simp add: sub h1g)
    from Cons.IH [OF this] show ?thesis
      by (auto simp: h1_def nth_append)
  next
    case False
    define h3 where "h3 = (h1 @ [g])[length h1 := c (dict_zip gv key) g]"
    obtain ys' h4 where rec: "iter_loop c h3 d gv al keys = (ys', h4)"
      by (cases "iter_loop c h3 d gv al keys")
    have res: "ys = (dict_zip gv key, length h1, g) # ys'" "h' = h4"
      using Cons.prems False rec
      by (simp_all add: sub h1g alloc_def h3_def Let_def)
    have len3: "length h3 = Suc (Suc (length h))" by (simp add: h3_def h1_def)
    have old3: "h3 ! a = h ! a" if "a < length h" for a
      using that by (simp add: h3_def h1_def nth_append)
    from Cons.IH [OF rec] have ih: "length h3 \<le> length h4" "\<forall>a < length h3. h4 ! a = h3 ! a"
      "\<forall>y \<in> set ys'. length h3 \<le> fst (snd y) \<and> fst (snd y) < length h4"
      "distinct (map (\<lambda>y. fst (snd y)) ys')"
      by auto
    have "length h1 = Suc (length h)" by (simp add: h1_def)
    then show ?thesis
      using ih len3 old3 by (auto simp: res)
  qed
qed

lemma iter_loop_trace:
  "d < length h \<Longrightarrow>
     map yielded_pair (fst (iter_loop c h d gv al keys)) = concat (map (group_yield (h ! d) gv al) keys)"
proof (induction keys arbitrary: h)
  case Nil
  then show ?case by simp
next
  case (Cons key keys)
  define g where "g = (case get_group (h ! d) gv key of Inr g \<Rightarrow> g | Inl e \<Rightarrow> df_loc_empty (h ! d))"
  define h1 where "h1 = h @ [g]"
  have sub: "(case get_group (h ! d) gv key of Inr g \<Rightarrow> alloc h g | Inl e \<Rightarrow> alloc h (df_loc_empty (h ! d)))
      = (length h, h1)"
    by (simp add: g_def h1_def alloc_def split: sum.splits)
  have h1g: "h1 ! length h = g" by (simp add: h1_def)
  have d1: "d < length h1" "h1 ! d = h ! d" using Cons.prems by (simp_all add: h1_def nth_append)
  have gy: "group_yield (h ! d) gv al key
      = (if df_empty g \<and> \<not> al then [] else [(dict_zip gv key, g)])"
    by (simp add: group_yield_def g_def Let_def)
  show ?case
  proof (cases "df_empty g \<and> \<not> al")
    case True
    then have "iter_loop c h d gv al (key # keys) = iter_loop c h1 d gv al keys"
      by (simp add: sub h1g)
    moreover have "group_yield (h ! d) gv al key = []"
      unfolding gy using True by simp
    ultimately show ?thesis using Cons.IH [OF d1(1)] d1(2) by simp
  next
    case False
    define h3 where "h3 = (h1 @ [g])[length h1 := c (dict_zip gv key) g]"
    have d3: "d < length h3" "h3 ! d = h ! d"
      using d1 by (simp_all add: h3_def nth_append)
    obtain ys' h4 where rec: "iter_loop c h3 d gv al keys = (ys', h4)"
      by (cases "iter_loop c h3 d gv al keys")
    have "iter_loop c h d gv al (key # keys) = ((dict_zip gv key, length h1, g) # ys', h4)"
      using False rec by (auto simp: sub h1g alloc_def h3_def Let_def)
    moreover have "group_yield (h ! d) gv al key = [(dict_zip gv key, g)]"
      unfolding gy using False by auto
    ultimately show ?thesis using Cons.IH [OF d3(1)] d3(2) rec by (simp add: yielded_pair_def)
  qed
qed

lemma iter_setup_reverse [simp]:
  "iter_setup E h p g (opts\<lparr>reverse := b\<rparr>) = iter_setup E h p g opts"
  by (simp add: iter_setup_def iter_grouping_vars_def Let_def split: sum.splits prod.splits)

lemma var_levels_plot_data [simp]: "plot_data (var_levels p) = plot_data p"
  by (simp add: var_levels_def)

lemma comp_data_frame:
  assumes "comp_data E h p = Inr (d, h1, p1)" and "valid_plotter h p"
  shows "d < length h1 \<and> length h \<le> length h1 \<and> (\<forall>a < length h. h1 ! a = h ! a)
         \<and> plot_data p1 = plot_data p"
  using assms
  by (auto simp: comp_data_def valid_plotter_def alloc_def nth_append
      split: if_splits option.splits sum.splits)

lemma iter_setup_frame:
  assumes "iter_setup E h p g opts = Inr (gv, d, h2, p2, lv)" and "valid_plotter h p"
  shows "d < length h2 \<and> length h \<le> length h2 \<and> (\<forall>a < length h. h2 ! a = h ! a)
         \<and> plot_data p2 = plot_data p"
proof -
  obtain d0 h1 p1 where src:
    "(if from_comp_data opts then comp_data E h p else Inr (plot_data p, h, p)) = Inr (d0, h1, p1)"
    using assms(1) by (auto simp: iter_setup_def Let_def split: sum.splits)
  have f1: "d0 < length h1 \<and> length h \<le> length h1 \<and> (\<forall>a < length h. h1 ! a = h ! a)
         \<and> plot_data p1 = plot_data p"
  proof (cases "from_comp_data opts")
    case True
    then show ?thesis using src comp_data_frame [OF _ assms(2)] by simp
  next
    case False
    then show ?thesis using src assms(2) by (auto simp: valid_plotter_def)
  qed
  have "(d, h2) = (if dropna opts then alloc h1 (df_dropna (h1 ! d0)) else (d0, h1))"
    and "p2 = var_levels p1"
    using assms(1) src
    by (auto simp: iter_setup_def Let_def split: sum.splits prod.splits if_splits)
  then show ?thesis using f1
    by (auto simp: alloc_def nth_append split: if_splits)
qed

lemma concat_map_rev_short:
  assumes "\<And>x. length (f x) \<le> 1"
  shows "concat (map f (rev xs)) = rev (concat (map f xs))"
proof -
  have "rev (f x) = f x" for x
    using assms [of x] by (cases "f x") auto
  then have "rev \<circ> f = f" by (simp add: fun_eq_iff)
  then show ?thesis by (simp add: rev_concat rev_map)
qed

lemma group_yield_short: "length (group_yield t gv al key) \<le> 1"
  by (simp add: group_yield_def Let_def)

lemmas example_defs = example_ext_def example_table_def example_plotter_def default_opts_def

lemmas iter_defs = iter_data_def iter_setup_def iter_grouping_vars_def var_levels_def
  dict_set_def dict_keys_def alloc_def df_dropna_def cell_def colnames_def notnull_def isna_def
  grouping_keys_def get_group_def group_rows_def df_loc_empty_def df_empty_def dict_zip_def
  Let_def

lemma example_valid: "valid_plotter [example_table] example_plotter"
  by (simp add: valid_plotter_def example_plotter_def)

lemma example_setup:
  "\<not> from_comp_data opts \<Longrightarrow> dropna opts \<Longrightarrow>
   iter_setup example_ext [example_table] example_plotter (GStr ''hue'') opts
    = Inr ([''hue''], 1, [example_table, example_table],
           example_plotter\<lparr>var_levels_dict := [(''hue'', Some [VStr ''a'', VStr ''b'', VStr ''c''])]\<rparr>,
           [(''hue'', Some [VStr ''a'', VStr ''b'', VStr ''c''])])"
  by (simp add: iter_defs example_ext_def example_table_def example_plotter_def)

lemma example_run:
  "iter_data example_ext (\<lambda>k t. t) [example_table] example_plotter (GStr ''hue'') default_opts
    = Inr ([([(''hue'', VStr ''a'')], 3, example_table\<lparr>trows := [(0, [VNum 1, VStr ''a'']), (2, [VNum 3, VStr ''a''])]\<rparr>),
            ([(''hue'', VStr ''b'')], 5, example_table\<lparr>trows := [(1, [VNum 2, VStr ''b''])]\<rparr>)],
           [example_table, example_table,
            example_table\<lparr>trows := [(0, [VNum 1, VStr ''a'']), (2, [VNum 3, VStr ''a''])]\<rparr>,
            example_table\<lparr>trows := [(0, [VNum 1, VStr ''a'']), (2, [VNum 3, VStr ''a''])]\<rparr>,
            example_table\<lparr>trows := [(1, [VNum 2, VStr ''b''])]\<rparr>,
            example_table\<lparr>trows := [(1, [VNum 2, VStr ''b''])]\<rparr>,
            example_table\<lparr>trows := []\<rparr>],
           example_plotter\<lparr>var_levels_dict := [(''hue'', Some [VStr ''a'', VStr ''b'', VStr ''c''])]\<rparr>)"
  by (simp add: iter_defs example_defs)

text \<open>
  C6: when the iteration reaches the loop with distinct grouping variables that are
  columns of the iterated table, it returns, and a key of the product of the level
  sequences that matches no row is skipped when \<open>allow_empty\<close> is false, and is yielded
  with a frame of no rows and the columns of the iterated table when \<open>allow_empty\<close> is
  true.
\<close>

theorem iter_data_empty_group:
  assumes valid: "valid_plotter h p"
    and st: "iter_setup E h p g opts = Inr (gv, d, h2, p2, lv)"
    and gv: "gv \<noteq> []" "distinct gv" "set gv \<subseteq> set (colnames (h2 ! d))"
    and gk: "grouping_keys lv gv = Inr gkeys"
    and key: "key \<in> set (product_lists gkeys)" "group_rows (h2 ! d) gv key = []"
  shows "\<exists>ys h' p'. iter_data E c h p g opts = Inr (ys, h', p')
     \<and> (if allow_empty opts
         then (dict_zip gv key, \<lparr>tcolumns = tcolumns (h2 ! d), trows = []\<rparr>) \<in> set (map yielded_pair ys)
         else dict_zip gv key \<notin> fst ` set ys)"
proof -
  define keys where "keys = (if reverse opts then rev (product_lists gkeys) else product_lists gkeys)"
  define t where "t = h2 ! d"
  obtain ys h' where loop: "iter_loop c h2 d gv (allow_empty opts) keys = (ys, h')"
    by (cases "iter_loop c h2 d gv (allow_empty opts) keys")
  have run: "iter_data E c h p g opts = Inr (ys, h', p2)"
    using gv gk loop by (auto simp: iter_data_def st keys_def Let_def)
  have d: "d < length h2" using iter_setup_frame [OF st valid] by simp
  have trace: "map yielded_pair ys = concat (map (group_yield t gv (allow_empty opts)) keys)"
    using iter_loop_trace [OF d, of c gv "allow_empty opts" keys] loop by (simp add: t_def)
  have key_in: "key \<in> set keys" using key(1) by (simp add: keys_def)
  have lens: "length k = length gv" if "k \<in> set keys" for k
  proof -
    have "k \<in> set (product_lists gkeys)" using that by (simp add: keys_def split: if_splits)
    then have "length k = length gkeys" by (rule in_set_product_lists_length)
    moreover have "length gkeys = length gv"
      using gk by (auto simp: grouping_keys_def split: if_splits)
    ultimately show ?thesis by simp
  qed
  have cols: "tcolumns t \<noteq> []" using gv(1,3) by (auto simp: t_def colnames_def)
  have gy_key: "group_yield t gv al key
      = (if al then [(dict_zip gv key, \<lparr>tcolumns = tcolumns t, trows = []\<rparr>)] else [])" for al
    using key(2) by (simp add: group_yield_def get_group_def df_loc_empty_def df_empty_def t_def)
  show ?thesis
  proof (cases "allow_empty opts")
    case True
    have "(dict_zip gv key, \<lparr>tcolumns = tcolumns t, trows = []\<rparr>) \<in> set (map yielded_pair ys)"
      unfolding trace using key_in gy_key [of True] True by force
    then show ?thesis using run True by (auto simp: t_def)
  next
    case False
    have "dict_zip gv key \<notin> fst ` set ys"
    proof
      assume "dict_zip gv key \<in> fst ` set ys"
      then have "dict_zip gv key \<in> fst ` set (map yielded_pair ys)"
        by (force simp: yielded_pair_def)
      then obtain k tb where k: "k \<in> set keys"
          "(dict_zip gv key, tb) \<in> set (group_yield t gv False k)"
        unfolding trace using False by auto
      have "dict_zip gv k = dict_zip gv key \<and> group_rows t gv k \<noteq> []"
        using k(2) cols
        by (auto simp: group_yield_def get_group_def df_loc_empty_def df_empty_def Let_def
            split: if_splits)
      moreover have "k = key"
        using dict_zip_inj [OF gv(2) lens [OF k(1)] lens [OF key_in]] calculation by simp
      ultimately show False using key(2) by (simp add: t_def)
    qed
    then show ?thesis using run False by auto
  qed
qed

theorem iter_data_empty_group_witness:
  "valid_plotter [example_table] example_plotter
   \<and> iter_setup example_ext [example_table] example_plotter (GStr ''hue'') default_opts
       = Inr ([''hue''], 1, [example_table, example_table],
              example_plotter\<lparr>var_levels_dict := [(''hue'', Some [VStr ''a'', VStr ''b'', VStr ''c''])]\<rparr>,
              [(''hue'', Some [VStr ''a'', VStr ''b'', VStr ''c''])])
   \<and> grouping_keys [(''hue'', Some [VStr ''a'', VStr ''b'', VStr ''c''])] [''hue'']
       = Inr [[VStr ''a'', VStr ''b'', VStr ''c'']]
   \<and> [VStr ''c''] \<in> set (product_lists [[VStr ''a'', VStr ''b'', VStr ''c'']])
   \<and> group_rows ([example_table, example_table] ! 1) [''hue''] [VStr ''c''] = []
   \<and> (\<exists>ys h' p'. iter_data example_ext (\<lambda>k t. t) [example_table] example_plotter (GStr ''hue'')
          default_opts = Inr (ys, h', p')
        \<and> [(''hue'', VStr ''c'')] \<notin> fst ` set ys)
   \<and> (\<exists>ys h' p'. iter_data example_ext (\<lambda>k t. t) [example_table] example_plotter (GStr ''hue'')
          (default_opts\<lparr>allow_empty := True\<rparr>) = Inr (ys, h', p')
        \<and> ([(''hue'', VStr ''c'')], \<lparr>tcolumns = [(''x'', DNumeric), (''hue'', DObject)], trows = []\<rparr>)
            \<in> set (map yielded_pair ys))"
proof -
  let ?lv = "[(''hue'', Some [VStr ''a'', VStr ''b'', VStr ''c''])]"
  let ?p2 = "example_plotter\<lparr>var_levels_dict := ?lv\<rparr>"
  let ?h2 = "[example_table, example_table]"
  have st: "iter_setup example_ext [example_table] example_plotter (GStr ''hue'') default_opts
       = Inr ([''hue''], 1, ?h2, ?p2, ?lv)"
    by (rule example_setup) (simp_all add: default_opts_def)
  have st': "iter_setup example_ext [example_table] example_plotter (GStr ''hue'')
       (default_opts\<lparr>allow_empty := True\<rparr>) = Inr ([''hue''], 1, ?h2, ?p2, ?lv)"
    by (rule example_setup) (simp_all add: default_opts_def)
  have gv: "[''hue''] \<noteq> []" "distinct [''hue'']" "set [''hue''] \<subseteq> set (colnames (?h2 ! 1))"
    by (simp_all add: colnames_def example_table_def)
  have gk: "grouping_keys ?lv [''hue''] = Inr [[VStr ''a'', VStr ''b'', VStr ''c'']]"
    by (simp add: grouping_keys_def)
  have key: "[VStr ''c''] \<in> set (product_lists [[VStr ''a'', VStr ''b'', VStr ''c'']])"
    "group_rows (?h2 ! 1) [''hue''] [VStr ''c''] = []"
    by (simp_all add: group_rows_def cell_def colnames_def example_table_def)
  have dz: "dict_zip [''hue''] [VStr ''c''] = [(''hue'', VStr ''c'')]"
    by (simp add: dict_zip_def dict_set_def)
  have cols: "tcolumns example_table = [(''x'', DNumeric), (''hue'', DObject)]"
    by (simp add: example_table_def)
  have a: "\<exists>ys h' p'. iter_data example_ext (\<lambda>k t. t) [example_table] example_plotter (GStr ''hue'')
          default_opts = Inr (ys, h', p') \<and> [(''hue'', VStr ''c'')] \<notin> fst ` set ys"
    using iter_data_empty_group [OF example_valid st gv gk key, of "\<lambda>k t. t"]
    by (simp add: dz default_opts_def)
  have b: "\<exists>ys h' p'. iter_data example_ext (\<lambda>k t. t) [example_table] example_plotter (GStr ''hue'')
          (default_opts\<lparr>allow_empty := True\<rparr>) = Inr (ys, h', p')
        \<and> ([(''hue'', VStr ''c'')], \<lparr>tcolumns = [(''x'', DNumeric), (''hue'', DObject)], trows = []\<rparr>)
            \<in> set (map yielded_pair ys)"
    using iter_data_empty_group [OF example_valid st' gv gk key, of "\<lambda>k t. t"]
    by (simp add: dz cols default_opts_def)
  show ?thesis using example_valid st gk key a b by blast
qed

text \<open>
  C7: with \<open>reverse=True\<close> the iteration yields the pairs \<open>(key, subset)\<close> of the
  default iteration in exactly the reverse order, each key with the same subset; when
  one of the two raises, the other raises the same error.
\<close>

theorem iter_data_reverse:
  assumes "valid_plotter h p"
  shows "map_sum id (\<lambda>(ys, h', p'). map yielded_pair ys) (iter_data E c h p g (opts\<lparr>reverse := True\<rparr>))
       = map_sum id (\<lambda>(ys, h', p'). rev (map yielded_pair ys))
           (iter_data E c h p g (opts\<lparr>reverse := False\<rparr>))"
proof (cases "iter_setup E h p g opts")
  case (Inl e)
  then show ?thesis by (simp add: iter_data_def)
next
  case (Inr st)
  obtain gv d h2 p2 lv where st: "st = (gv, d, h2, p2, lv)" by (cases st)
  have d: "d < length h2" using iter_setup_frame [OF Inr [unfolded st] assms] by simp
  show ?thesis
  proof (cases "gv \<noteq> [] \<and> set gv \<subseteq> set (colnames (h2 ! d))")
    case False
    then show ?thesis by (auto simp: iter_data_def Inr st alloc_def yielded_pair_def)
  next
    case True
    show ?thesis
    proof (cases "grouping_keys lv gv")
      case (Inl e)
      then show ?thesis using True by (simp add: iter_data_def Inr st)
    next
      case gk: (Inr gkeys)
      let ?keys = "product_lists gkeys"
      have fwd: "map yielded_pair (fst (iter_loop c h2 d gv (allow_empty opts) ?keys))
          = concat (map (group_yield (h2 ! d) gv (allow_empty opts)) ?keys)"
        by (rule iter_loop_trace [OF d])
      have bwd: "map yielded_pair (fst (iter_loop c h2 d gv (allow_empty opts) (rev ?keys)))
          = rev (concat (map (group_yield (h2 ! d) gv (allow_empty opts)) ?keys))"
        using iter_loop_trace [OF d, of c gv "allow_empty opts" "rev ?keys"]
        by (simp add: concat_map_rev_short [OF group_yield_short])
      obtain ys1 g1 where r1: "iter_loop c h2 d gv (allow_empty opts) ?keys = (ys1, g1)"
        by (cases "iter_loop c h2 d gv (allow_empty opts) ?keys")
      obtain ys2 g2 where r2: "iter_loop c h2 d gv (allow_empty opts) (rev ?keys) = (ys2, g2)"
        by (cases "iter_loop c h2 d gv (allow_empty opts) (rev ?keys)")
      have "map yielded_pair ys2 = rev (map yielded_pair ys1)"
        using fwd bwd by (simp add: r1 r2)
      then show ?thesis
        using True by (simp add: iter_data_def Inr st gk Let_def r1 r2)
    qed
  qed
qed

theorem iter_data_reverse_witness:
  "valid_plotter [example_table] example_plotter
   \<and> map_sum id (\<lambda>(ys, h', p'). map yielded_pair ys)
       (iter_data example_ext (\<lambda>k t. t) [example_table] example_plotter (GStr ''hue'')
          (default_opts\<lparr>reverse := True\<rparr>))
     = Inr [([(''hue'', VStr ''b'')], example_table\<lparr>trows := [(1, [VNum 2, VStr ''b''])]\<rparr>),
            ([(''hue'', VStr ''a'')],
             example_table\<lparr>trows := [(0, [VNum 1, VStr ''a'']), (2, [VNum 3, VStr ''a''])]\<rparr>)]"
proof -
  have "default_opts\<lparr>reverse := False\<rparr> = default_opts" by (simp add: default_opts_def)
  then show ?thesis
    using iter_data_reverse [OF example_valid, of example_ext "\<lambda>k t. t" "GStr ''hue''" default_opts]
    by (simp add: example_run example_valid yielded_pair_def)
qed

text \<open>
  C10: a complete iteration, whatever its consumer does to the frames it is handed,
  leaves the plotter pointing at the same table with the same contents; every yielded
  frame is a new object, different from the table and from every other yielded frame, so
  that writing to it afterwards leaves the table as it was.
\<close>

theorem iter_data_fresh_copies:
  assumes run: "iter_data E c h p g opts = Inr (ys, h', p')" and valid: "valid_plotter h p"
  shows "plot_data p' = plot_data p \<and> h' ! plot_data p = h ! plot_data p
     \<and> (\<forall>y \<in> set ys. length h \<le> fst (snd y) \<and> fst (snd y) \<noteq> plot_data p
            \<and> (\<forall>t. h'[fst (snd y) := t] ! plot_data p = h ! plot_data p))
     \<and> distinct (map (\<lambda>y. fst (snd y)) ys)"
proof -
  obtain gv d h2 p2 lv where st: "iter_setup E h p g opts = Inr (gv, d, h2, p2, lv)"
    using run by (auto simp: iter_data_def split: sum.splits)
  from iter_setup_frame [OF st valid]
  have fr: "length h \<le> length h2" "\<forall>a < length h. h2 ! a = h ! a" "plot_data p2 = plot_data p"
    by auto
  have pd: "plot_data p < length h" using valid by (simp add: valid_plotter_def)
  have core: "p' = p2 \<and> length h2 \<le> length h' \<and> (\<forall>a < length h2. h' ! a = h2 ! a)
     \<and> (\<forall>y \<in> set ys. length h2 \<le> fst (snd y))
     \<and> distinct (map (\<lambda>y. fst (snd y)) ys)"
  proof (cases "gv \<noteq> []")
    case True
    then obtain gkeys where gk: "grouping_keys lv gv = Inr gkeys"
      using run by (auto simp: iter_data_def st split: sum.splits if_splits)
    define keys where "keys = (if reverse opts then rev (product_lists gkeys) else product_lists gkeys)"
    have "iter_loop c h2 d gv (allow_empty opts) keys = (ys, h') \<and> p' = p2"
      using run True gk
      by (auto simp: iter_data_def st keys_def Let_def split: if_splits prod.splits)
    then show ?thesis using iter_loop_heap [of c h2 d gv "allow_empty opts" keys ys h'] by auto
  next
    case False
    then have "ys = [([], length h2, h2 ! d)]" "h' = (h2 @ [h2 ! d])[length h2 := c [] (h2 ! d)]"
      "p' = p2"
      using run by (auto simp: iter_data_def st alloc_def)
    then show ?thesis by (auto simp: nth_append)
  qed
  have old: "h' ! a = h ! a" if "a < length h" for a
    using that core fr by auto
  have "fst (snd y) \<noteq> plot_data p \<and> length h \<le> fst (snd y)
      \<and> (\<forall>t. h'[fst (snd y) := t] ! plot_data p = h ! plot_data p)" if "y \<in> set ys" for y
  proof -
    have "length h \<le> fst (snd y)" using that core fr(1) by fastforce
    then show ?thesis using pd old by simp
  qed
  then show ?thesis using core fr(3) old pd by blast
qed

theorem iter_data_fresh_copies_witness:
  "valid_plotter [example_table] example_plotter
   \<and> (\<exists>ys h' p'. iter_data example_ext (\<lambda>k t. t\<lparr>trows := []\<rparr>) [example_table] example_plotter
          (GStr ''hue'') default_opts = Inr (ys, h', p')
        \<and> plot_data p' = 0 \<and> h' ! 0 = example_table \<and> map (\<lambda>y. fst (snd y)) ys = [3, 5])"
proof -
  have run: "\<exists>ys h' p'. iter_data example_ext (\<lambda>k t. t\<lparr>trows := []\<rparr>) [example_table]
      example_plotter (GStr ''hue'') default_opts = Inr (ys, h', p')
      \<and> map (\<lambda>y. fst (snd y)) ys = [3, 5]"
    by (simp add: iter_defs example_defs)
  then obtain ys h' p' where r: "iter_data example_ext (\<lambda>k t. t\<lparr>trows := []\<rparr>) [example_table]
      example_plotter (GStr ''hue'') default_opts = Inr (ys, h', p')"
      "map (\<lambda>y. fst (snd y)) ys = [3, 5]"
    by auto
  from iter_data_fresh_copies [OF r(1) example_valid]
  have "plot_data p' = 0" "h' ! 0 = example_table"
    by (simp_all add: example_plotter_def)
  with r example_valid show ?thesis by auto
qed

section \<open>Properties of the categorical scaling\<close>

text \<open>
  C4: a second \<open>scale_categorical\<close> on the same axis with the same arguments should
  raise or change nothing. Here the formatter is applied again to the already formatted
  column and levels: the second call returns, and the table and the recorded order differ
  from those after the first.
\<close>

theorem scale_categorical_twice:
  "\<exists>h1 p1 h2 p2.
     scale_categorical E [example_cat_table] example_cat_plotter ''x'' None (Some example_formatter)
       = Inr (h1, p1)
     \<and> scale_categorical E h1 p1 ''x'' None (Some example_formatter) = Inr (h2, p2)
     \<and> svals (column (h1 ! plot_data p1) ''x'') = [VStr ''a cm'', VStr ''b cm'']
     \<and> svals (column (h2 ! plot_data p2) ''x'') = [VStr ''a cm cm'', VStr ''b cm cm'']
     \<and> map_of (var_levels_dict p1) ''x'' = Some (Some [VStr ''a cm'', VStr ''b cm''])
     \<and> map_of (var_levels_dict p2) ''x'' = Some (Some [VStr ''a cm cm'', VStr ''b cm cm''])
     \<and> map_of (var_types p1) ''x'' = Some Categorical
     \<and> map_of (var_types p2) ''x'' = Some Categorical"
proof -
  let ?t1 = "\<lparr>tcolumns = [(''x'', DObject), (''y'', DNumeric)],
     trows = [(0, [VStr ''a cm'', VNum 1]), (1, [VStr ''b cm'', VNum 2])]\<rparr>"
  let ?t2 = "\<lparr>tcolumns = [(''x'', DObject), (''y'', DNumeric)],
     trows = [(0, [VStr ''a cm cm'', VNum 1]), (1, [VStr ''b cm cm'', VNum 2])]\<rparr>"
  let ?p1 = "example_cat_plotter\<lparr>var_levels_dict := [(''x'', Some [VStr ''a cm'', VStr ''b cm''])]\<rparr>"
  let ?p2 = "example_cat_plotter\<lparr>var_levels_dict := [(''x'', Some [VStr ''a cm cm'', VStr ''b cm cm''])]\<rparr>"
  have cat: "categorical_order b f \<lparr>sdtype = DObject, svals = [VStr u, VStr v]\<rparr> None
      = Inr (unique [VStr u, VStr v])" for b f u v
    by (simp add: categorical_order_def variable_type_def is_categorical_dtype_def
      is_numeric_dtype_def is_datetime64_dtype_def all_numeric_def all_datetime_def
      isna_def notnull_def)
  have first: "scale_categorical E [example_cat_table] example_cat_plotter ''x'' None
      (Some example_formatter) = Inr ([?t1], ?p1)"
    by (simp add: scale_categorical_def check_argument_def example_cat_table_def
        example_cat_plotter_def example_formatter_def dict_keys_def dict_set_def colnames_def
        column_def cell_def cat unique_def series_map_def infer_dtype_def var_levels_def
        df_set_column_def index_of_def is_categorical_dtype_def Let_def)
  have second: "scale_categorical E [?t1] ?p1 ''x'' None (Some example_formatter) = Inr ([?t2], ?p2)"
    by (simp add: scale_categorical_def check_argument_def
        example_cat_plotter_def example_formatter_def dict_keys_def dict_set_def colnames_def
        column_def cell_def cat unique_def series_map_def infer_dtype_def var_levels_def
        df_set_column_def index_of_def is_categorical_dtype_def Let_def)
  have "svals (column ([?t1] ! plot_data ?p1) ''x'') = [VStr ''a cm'', VStr ''b cm'']"
    "svals (column ([?t2] ! plot_data ?p2) ''x'') = [VStr ''a cm cm'', VStr ''b cm cm'']"
    "map_of (var_levels_dict ?p1) ''x'' = Some (Some [VStr ''a cm'', VStr ''b cm''])"
    "map_of (var_levels_dict ?p2) ''x'' = Some (Some [VStr ''a cm cm'', VStr ''b cm cm''])"
    "map_of (var_types ?p1) ''x'' = Some Categorical"
    "map_of (var_types ?p2) ''x'' = Some Categorical"
    by (simp_all add: column_def cell_def colnames_def example_cat_plotter_def)
  with first second show ?thesis by blast
qed

theorem scale_categorical_twice_witness:
  "\<exists>h1 p1 h2 p2.
     scale_categorical example_ext [example_cat_table] example_cat_plotter ''x'' None
       (Some example_formatter) = Inr (h1, p1)
     \<and> scale_categorical example_ext h1 p1 ''x'' None (Some example_formatter) = Inr (h2, p2)
     \<and> svals (column (h1 ! plot_data p1) ''x'') = [VStr ''a cm'', VStr ''b cm'']
     \<and> svals (column (h2 ! plot_data p2) ''x'') = [VStr ''a cm cm'', VStr ''b cm cm'']
     \<and> map_of (var_levels_dict p1) ''x'' = Some (Some [VStr ''a cm'', VStr ''b cm''])
     \<and> map_of (var_levels_dict p2) ''x'' = Some (Some [VStr ''a cm cm'', VStr ''b cm cm''])
     \<and> map_of (var_types p1) ''x'' = Some Categorical
     \<and> map_of (var_types p2) ''x'' = Some Categorical"
  by (rule scale_categorical_twice)

end
